theory Spec2Isabelle
  imports Main
begin

section \<open>The GoDaddy DNS provider of caddy-dns-godaddy\<close>

text \<open>
  A shallow embedding of \<^verbatim>\<open>caddy_dns_godaddy.go\<close>. The provider talks to the GoDaddy
  REST API through \<^verbatim>\<open>http.Client.Do\<close>. The remote side is modelled by the history of
  the calls sent so far (the trace): every method of the provider takes the trace and
  returns it extended by the calls it sent, and the answer to a call is a function of the
  trace that ends with this call. Any deterministic server, whatever state it keeps, is
  such a function.
\<close>

subsection \<open>Data\<close>

text \<open>Go's \<^verbatim>\<open>error\<close> values are modelled by their messages.\<close>

type_synonym error = string

text \<open>
  \<^verbatim>\<open>libdns.RR\<close>; the TTL is a \<^verbatim>\<open>time.Duration\<close>. \<^verbatim>\<open>libdns.Record\<close> is an
  interface whose only method is \<^verbatim>\<open>RR()\<close>, and the provider reads a record through
  this method only: the model identifies a record with its \<^verbatim>\<open>RR\<close> value.
\<close>

record RR =
  Name :: string
  TTL :: int
  Type :: string
  Data :: string

type_synonym Record = RR

definition RR :: "Record \<Rightarrow> RR" where
  "RR r = r"

text \<open>The provider; \<^verbatim>\<open>caddy.Duration\<close> counts nanoseconds.\<close>

record Provider =
  APIKey :: string
  APISecret :: string
  HTTPTimeout :: int

definition Second :: int where
  "Second = 1000000000"

text \<open>
  An \<^verbatim>\<open>http.Request\<close> (method, URL, header, body; a \<^verbatim>\<open>nil\<close> body is \<open>None\<close>),
  a call (the request together with the timeout of the client that sends it) and an
  \<^verbatim>\<open>http.Response\<close> (the status code and what \<^verbatim>\<open>io.ReadAll\<close> reads from the body).
\<close>

record http_request =
  Method :: string
  URL :: string
  Header :: "string \<rightharpoonup> string"
  ReqBody :: "string option"

record http_call =
  Timeout :: int
  Req :: http_request

record http_response =
  StatusCode :: int
  Body :: string

type_synonym trace = "http_call list"

text \<open>
  What the provider uses of the Go standard library and of the network, as parameters:
  the error of \<^verbatim>\<open>http.NewRequestWithContext\<close> for a method and a URL (if any), the
  encoder \<^verbatim>\<open>json.Marshal\<close> on a list of records, the decoder of a response body into
  records, and the answer of \<^verbatim>\<open>http.Client.Do\<close> to the last call of a trace (a
  transport error or a response). A call is one request handed to \<^verbatim>\<open>Do\<close>; what the
  client sends by itself while it follows a redirect belongs to the answer.

  \<^verbatim>\<open>GetRecords\<close> decodes into a \<^verbatim>\<open>[]libdns.Record\<close>, a slice of an interface type
  with a method. \<^verbatim>\<open>encoding/json\<close> cannot build a value of such a type: an object in
  the array is the error
  \<^verbatim>\<open>json: cannot unmarshal object into Go value of type libdns.Record\<close>, so in the program
  a decode without error leaves no record (the predicate \<open>decodes_no_record\<close> below; a
  \<^verbatim>\<open>null\<close> in the array is accepted, and \<^verbatim>\<open>GetRecords\<close> then panics on it: the model has
  no panic, as it has no \<^verbatim>\<open>nil\<close> record).
\<close>

record env =
  NewRequestError :: "string \<Rightarrow> string \<Rightarrow> error option"
  Marshal :: "RR list \<Rightarrow> error + string"
  Decode :: "string \<Rightarrow> error + Record list"
  Do :: "trace \<Rightarrow> error + http_response"

subsection \<open>Strings\<close>

text \<open>\<^verbatim>\<open>strings.HasSuffix\<close> and \<^verbatim>\<open>strings.TrimSuffix\<close>.\<close>

definition HasSuffix :: "string \<Rightarrow> string \<Rightarrow> bool" where
  "HasSuffix s suffix =
     (length suffix \<le> length s \<and> drop (length s - length suffix) s = suffix)"

definition TrimSuffix :: "string \<Rightarrow> string \<Rightarrow> string" where
  "TrimSuffix s suffix =
     (if HasSuffix s suffix then take (length s - length suffix) s else s)"

text \<open>The verb \<^verbatim>\<open>%d\<close> of \<^verbatim>\<open>fmt\<close>: an integer in decimal.\<close>

fun decimal :: "nat \<Rightarrow> string" where
  "decimal n =
     (if n < 10 then [char_of (48 + n)]
      else decimal (n div 10) @ [char_of (48 + n mod 10)])"

declare decimal.simps [simp del]

definition Itoa :: "int \<Rightarrow> string" where
  "Itoa i = (if i < 0 then CHR ''-'' # decimal (nat (- i)) else decimal (nat i))"

subsection \<open>Provision\<close>

definition Provision :: "Provider \<Rightarrow> trace \<Rightarrow> (Provider \<times> error option) \<times> trace" where
  "Provision p tr =
     (if APIKey p = [] then ((p, Some ''GoDaddy API key cannot be empty''), tr)
      else if APISecret p = [] then ((p, Some ''GoDaddy API secret cannot be empty''), tr)
      else if HTTPTimeout p = 0 then ((p\<lparr>HTTPTimeout := 30 * Second\<rparr>, None), tr)
      else ((p, None), tr))"

subsection \<open>The transport helper\<close>

definition NewRequestWithContext ::
  "env \<Rightarrow> string \<Rightarrow> string \<Rightarrow> string option \<Rightarrow> error + http_request" where
  "NewRequestWithContext e method url body =
     (case NewRequestError e method url of
        Some err \<Rightarrow> Inl err
      | None \<Rightarrow> Inr \<lparr>Method = method, URL = url, Header = Map.empty, ReqBody = body\<rparr>)"

definition request ::
  "env \<Rightarrow> Provider \<Rightarrow> http_request \<Rightarrow> trace \<Rightarrow> (error + http_response) \<times> trace" where
  "request e p req tr =
     (let req1 = req\<lparr>Header := (Header req)
                   (''Authorization'' \<mapsto> ''sso-key '' @ APIKey p @ '':'' @ APISecret p)\<rparr>;
          req2 = req1\<lparr>Header := (Header req1)(''Content-Type'' \<mapsto> ''application/json'')\<rparr>;
          tr' = tr @ [\<lparr>Timeout = HTTPTimeout p, Req = req2\<rparr>]
      in (Do e tr', tr'))"

subsection \<open>The three remote operations\<close>

definition GetRecords ::
  "env \<Rightarrow> Provider \<Rightarrow> string \<Rightarrow> trace \<Rightarrow> (Record list \<times> error option) \<times> trace" where
  "GetRecords e p zone tr =
     (let domain = TrimSuffix zone ''.'';
          url = ''https://api.godaddy.com/v1/domains/'' @ domain @ ''/records''
      in case NewRequestWithContext e ''GET'' url None of
           Inl err \<Rightarrow> (([], Some err), tr)
         | Inr req \<Rightarrow>
             (case request e p req tr of
                (Inl err, tr') \<Rightarrow> (([], Some err), tr')
              | (Inr resp, tr') \<Rightarrow>
                  if StatusCode resp \<noteq> 200
                  then (([], Some (''GoDaddy API request failed: '' @ Itoa (StatusCode resp)
                                     @ '' '' @ Body resp)), tr')
                  else (case Decode e (Body resp) of
                          Inl err \<Rightarrow> (([], Some err), tr')
                        | Inr godaddyRecords \<Rightarrow>
                            ((map (\<lambda>gr. \<lparr>Name = Name (RR gr), TTL = TTL (RR gr),
                                         Type = Type (RR gr), Data = Data (RR gr)\<rparr>)
                                godaddyRecords, None), tr'))))"

text \<open>
  The name sent upstream, as \<^verbatim>\<open>createRecord\<close> and \<^verbatim>\<open>deleteRecord\<close> both compute
  it into their variable \<^verbatim>\<open>recordName\<close>.
\<close>

definition recordName :: "string \<Rightarrow> string \<Rightarrow> string" where
  "recordName domain name =
     (let recordName = TrimSuffix name (''.'' @ domain)
      in if recordName = domain then ''@'' else recordName)"

definition createRecord ::
  "env \<Rightarrow> Provider \<Rightarrow> string \<Rightarrow> Record \<Rightarrow> trace \<Rightarrow> error option \<times> trace" where
  "createRecord e p zone record tr =
     (let domain = TrimSuffix zone ''.'';
          rr = RR record;
          godaddyRecord = \<lparr>Name = recordName domain (Name (RR record)), TTL = TTL rr,
                           Type = Type rr, Data = Data rr\<rparr>
      in case Marshal e [godaddyRecord] of
           Inl err \<Rightarrow> (Some err, tr)
         | Inr jsonData \<Rightarrow>
             (let url = ''https://api.godaddy.com/v1/domains/'' @ domain @ ''/records''
              in case NewRequestWithContext e ''PATCH'' url (Some jsonData) of
                   Inl err \<Rightarrow> (Some err, tr)
                 | Inr req \<Rightarrow>
                     (case request e p req tr of
                        (Inl err, tr') \<Rightarrow> (Some err, tr')
                      | (Inr resp, tr') \<Rightarrow>
                          if StatusCode resp \<noteq> 200
                          then (Some (''failed to create DNS record: ''
                                       @ Itoa (StatusCode resp) @ '' '' @ Body resp), tr')
                          else (None, tr'))))"

definition deleteRecord ::
  "env \<Rightarrow> Provider \<Rightarrow> string \<Rightarrow> Record \<Rightarrow> trace \<Rightarrow> error option \<times> trace" where
  "deleteRecord e p zone record tr =
     (let domain = TrimSuffix zone ''.'';
          rr = RR record;
          url = ''https://api.godaddy.com/v1/domains/'' @ domain @ ''/records/''
                  @ Type rr @ ''/'' @ recordName domain (Name rr)
      in case NewRequestWithContext e ''DELETE'' url None of
           Inl err \<Rightarrow> (Some err, tr)
         | Inr req \<Rightarrow>
             (case request e p req tr of
                (Inl err, tr') \<Rightarrow> (Some err, tr')
              | (Inr resp, tr') \<Rightarrow>
                  if StatusCode resp \<noteq> 200 \<and> StatusCode resp \<noteq> 204
                  then (Some (''failed to delete DNS record: ''
                               @ Itoa (StatusCode resp) @ '' '' @ Body resp), tr')
                  else (None, tr')))"

subsection \<open>The batch operations\<close>

text \<open>
  The loop of \<^verbatim>\<open>AppendRecords\<close> over the records still to create, with the slice
  \<^verbatim>\<open>createdRecords\<close> as accumulator. A \<^verbatim>\<open>nil\<close> slice is the empty list.
\<close>

fun AppendRecords_loop ::
  "env \<Rightarrow> Provider \<Rightarrow> string \<Rightarrow> Record list \<Rightarrow> Record list \<Rightarrow> trace
     \<Rightarrow> (Record list \<times> error option) \<times> trace" where
  "AppendRecords_loop e p zone [] createdRecords tr = ((createdRecords, None), tr)"
| "AppendRecords_loop e p zone (record # records) createdRecords tr =
     (case createRecord e p zone record tr of
        (Some err, tr') \<Rightarrow>
          ((createdRecords, Some (''failed to create DNS record: '' @ err)), tr')
      | (None, tr') \<Rightarrow>
          AppendRecords_loop e p zone records (createdRecords @ [record]) tr')"

definition AppendRecords ::
  "env \<Rightarrow> Provider \<Rightarrow> string \<Rightarrow> Record list \<Rightarrow> trace
     \<Rightarrow> (Record list \<times> error option) \<times> trace" where
  "AppendRecords e p zone records tr = AppendRecords_loop e p zone records [] tr"

fun DeleteRecords_loop ::
  "env \<Rightarrow> Provider \<Rightarrow> string \<Rightarrow> Record list \<Rightarrow> Record list \<Rightarrow> trace
     \<Rightarrow> (Record list \<times> error option) \<times> trace" where
  "DeleteRecords_loop e p zone [] deletedRecords tr = ((deletedRecords, None), tr)"
| "DeleteRecords_loop e p zone (record # records) deletedRecords tr =
     (case deleteRecord e p zone record tr of
        (Some err, tr') \<Rightarrow>
          ((deletedRecords, Some (''failed to delete DNS record: '' @ err)), tr')
      | (None, tr') \<Rightarrow>
          DeleteRecords_loop e p zone records (deletedRecords @ [record]) tr')"

definition DeleteRecords ::
  "env \<Rightarrow> Provider \<Rightarrow> string \<Rightarrow> Record list \<Rightarrow> trace
     \<Rightarrow> (Record list \<times> error option) \<times> trace" where
  "DeleteRecords e p zone records tr = DeleteRecords_loop e p zone records [] tr"

subsection \<open>SetRecords\<close>

text \<open>
  The inner loop of \<^verbatim>\<open>SetRecords\<close> (over the existing records, for one new record)
  and its outer loop (over the new records). Each returns the error that ends
  \<^verbatim>\<open>SetRecords\<close>, if any.
\<close>

fun SetRecords_inner ::
  "env \<Rightarrow> Provider \<Rightarrow> string \<Rightarrow> Record \<Rightarrow> Record list \<Rightarrow> trace \<Rightarrow> error option \<times> trace" where
  "SetRecords_inner e p zone newRecord [] tr = (None, tr)"
| "SetRecords_inner e p zone newRecord (existing # existingRecords) tr =
     (let existingRR = RR existing; newRecordRR = RR newRecord
      in if Type existingRR = Type newRecordRR \<and> Name existingRR = Name newRecordRR
         then (case deleteRecord e p zone existing tr of
                 (Some err, tr') \<Rightarrow>
                   (Some (''failed to delete existing record: '' @ err), tr')
               | (None, tr') \<Rightarrow> SetRecords_inner e p zone newRecord existingRecords tr')
         else SetRecords_inner e p zone newRecord existingRecords tr)"

fun SetRecords_outer ::
  "env \<Rightarrow> Provider \<Rightarrow> string \<Rightarrow> Record list \<Rightarrow> Record list \<Rightarrow> trace \<Rightarrow> error option \<times> trace" where
  "SetRecords_outer e p zone [] existingRecords tr = (None, tr)"
| "SetRecords_outer e p zone (newRecord # records) existingRecords tr =
     (case SetRecords_inner e p zone newRecord existingRecords tr of
        (Some err, tr') \<Rightarrow> (Some err, tr')
      | (None, tr') \<Rightarrow> SetRecords_outer e p zone records existingRecords tr')"

definition SetRecords ::
  "env \<Rightarrow> Provider \<Rightarrow> string \<Rightarrow> Record list \<Rightarrow> trace
     \<Rightarrow> (Record list \<times> error option) \<times> trace" where
  "SetRecords e p zone records tr =
     (case GetRecords e p zone tr of
        ((existingRecords, Some err), tr') \<Rightarrow> (([], Some err), tr')
      | ((existingRecords, None), tr') \<Rightarrow>
          (case SetRecords_outer e p zone records existingRecords tr' of
             (Some err, tr'') \<Rightarrow> (([], Some err), tr'')
           | (None, tr'') \<Rightarrow> AppendRecords e p zone records tr''))"


subsection \<open>Predicates on traces and environments\<close>

text \<open>
  A call carries the credentials of provider \<open>p\<close>, the JSON content type and the
  timeout configured for \<open>p\<close>.
\<close>

definition authenticated :: "Provider \<Rightarrow> http_call \<Rightarrow> bool" where
  "authenticated p c =
     (Header (Req c) ''Authorization'' = Some (''sso-key '' @ APIKey p @ '':'' @ APISecret p)
      \<and> Header (Req c) ''Content-Type'' = Some ''application/json''
      \<and> Timeout c = HTTPTimeout p)"

text \<open>The trace \<open>tr'\<close> extends \<open>tr\<close>, and every call it adds satisfies \<open>P\<close>.\<close>

definition sends :: "(http_call \<Rightarrow> bool) \<Rightarrow> trace \<Rightarrow> trace \<Rightarrow> bool" where
  "sends P tr tr' = (\<exists>new. tr' = tr @ new \<and> list_all P new)"

text \<open>
  The URL of the records of a domain,
  \<^verbatim>\<open>https://api.godaddy.com/v1/domains/{domain}/records\<close>; a call goes to the records of a
  domain when its URL is this one or lies below it.
\<close>

definition records_url :: "string \<Rightarrow> string" where
  "records_url domain = ''https://api.godaddy.com/v1/domains/'' @ domain @ ''/records''"

definition on_domain :: "string \<Rightarrow> http_call \<Rightarrow> bool" where
  "on_domain domain c =
     (URL (Req c) = records_url domain \<or>
      take (length (records_url domain @ ''/'')) (URL (Req c)) = records_url domain @ ''/'')"


subsection \<open>The reconciliation algorithm, as the specification words it\<close>

text \<open>
  The delete targets: for every desired record in input order, the current records of
  the same type and name, in their order; nothing is removed from the list when two
  desired records share a type and a name.
\<close>

definition spec_delete_targets :: "Record list \<Rightarrow> Record list \<Rightarrow> Record list" where
  "spec_delete_targets desired current =
     concat (map (\<lambda>d. filter (\<lambda>c. Type c = Type d \<and> Name c = Name d) current) desired)"

text \<open>One delete call per target, in order, up to the first one that fails.\<close>

fun spec_issue_deletes ::
  "env \<Rightarrow> Provider \<Rightarrow> string \<Rightarrow> Record list \<Rightarrow> trace \<Rightarrow> error option \<times> trace" where
  "spec_issue_deletes e p zone [] tr = (None, tr)"
| "spec_issue_deletes e p zone (target # targets) tr =
     (case deleteRecord e p zone target tr of
        (Some err, tr') \<Rightarrow> (Some (''failed to delete existing record: '' @ err), tr')
      | (None, tr') \<Rightarrow> spec_issue_deletes e p zone targets tr')"

text \<open>Fetch, and return the error of a failed fetch; delete the targets; append.\<close>

definition SetRecords_spec ::
  "env \<Rightarrow> Provider \<Rightarrow> string \<Rightarrow> Record list \<Rightarrow> trace
     \<Rightarrow> (Record list \<times> error option) \<times> trace" where
  "SetRecords_spec e p zone desired tr =
     (case GetRecords e p zone tr of
        ((current, Some err), tr1) \<Rightarrow> (([], Some err), tr1)
      | ((current, None), tr1) \<Rightarrow>
          (case spec_issue_deletes e p zone (spec_delete_targets desired current) tr1 of
             (Some err, tr2) \<Rightarrow> (([], Some err), tr2)
           | (None, tr2) \<Rightarrow> AppendRecords e p zone desired tr2))"

subsection \<open>Concrete environments\<close>

text \<open>
  A provider, and environments to run the operations in: every request can be built, the
  encoder writes type, name and data of each record, and the server answers by the given
  function of the trace. The decoder does what \<^verbatim>\<open>encoding/json\<close> does, decoding into a
  \<^verbatim>\<open>[]libdns.Record\<close>, on the bodies used below: the empty array gives no record, the
  empty body the error \<^verbatim>\<open>EOF\<close>, and an array of objects the type error.
\<close>

definition test_provider :: Provider where
  "test_provider = \<lparr>APIKey = ''key'', APISecret = ''secret'', HTTPTimeout = 30 * Second\<rparr>"

definition test_marshal :: "RR list \<Rightarrow> error + string" where
  "test_marshal rs = Inr (concat (map (\<lambda>r. Type r @ '' '' @ Name r @ '' '' @ Data r @ '';'') rs))"

definition test_decode :: "string \<Rightarrow> error + Record list" where
  "test_decode body =
     (if body = ''[]'' then Inr []
      else if body = [] then Inl ''EOF''
      else Inl ''json: cannot unmarshal object into Go value of type libdns.Record'')"

definition test_env :: "(trace \<Rightarrow> error + http_response) \<Rightarrow> env" where
  "test_env answer =
     \<lparr>NewRequestError = (\<lambda>method url. None), Marshal = test_marshal,
      Decode = test_decode, Do = answer\<rparr>"

text \<open>The server that answers every call with one status and body.\<close>

definition always :: "int \<Rightarrow> string \<Rightarrow> trace \<Rightarrow> error + http_response" where
  "always status body tr = Inr \<lparr>StatusCode = status, Body = body\<rparr>"

text \<open>
  The server that answers the \<open>n\<close>-th call with a status and body, every other with 200
  and the empty array.
\<close>

definition nth_call :: "nat \<Rightarrow> int \<Rightarrow> string \<Rightarrow> trace \<Rightarrow> error + http_response" where
  "nth_call n status body tr =
     (if length tr = n then Inr \<lparr>StatusCode = status, Body = body\<rparr>
      else Inr \<lparr>StatusCode = 200, Body = ''[]''\<rparr>)"

text \<open>The server that answers by the method of the call: one response for each method.\<close>

definition by_method ::
  "http_response \<Rightarrow> http_response \<Rightarrow> http_response \<Rightarrow> trace \<Rightarrow> error + http_response" where
  "by_method get patch delete tr =
     (if tr = [] then Inl ''no request''
      else if Method (Req (last tr)) = ''GET'' then Inr get
      else if Method (Req (last tr)) = ''PATCH'' then Inr patch
      else Inr delete)"

text \<open>
  The body GoDaddy returns for a zone that holds one record, the \<^verbatim>\<open>TXT\<close> record
  \<^verbatim>\<open>_acme-challenge\<close> with data \<^verbatim>\<open>old\<close>.
\<close>

definition records_body :: string where
  "records_body =
     ''[{\"data\":\"old\",\"name\":\"_acme-challenge\",\"ttl\":600,\"type\":\"TXT\"}]''"

text \<open>
  What a trace shows of each call: the method and the URL; the two headers and the
  timeout.
\<close>

definition calls :: "trace \<Rightarrow> (string \<times> string) list" where
  "calls tr = map (\<lambda>c. (Method (Req c), URL (Req c))) tr"

definition credentials :: "trace \<Rightarrow> (string option \<times> string option \<times> int) list" where
  "credentials tr =
     map (\<lambda>c. (Header (Req c) ''Authorization'', Header (Req c) ''Content-Type'', Timeout c)) tr"

definition txt_record :: "string \<Rightarrow> string \<Rightarrow> Record" where
  "txt_record name data = \<lparr>Name = name, TTL = 600 * Second, Type = ''TXT'', Data = data\<rparr>"

section \<open>Properties\<close>

subsection \<open>Strings\<close>

lemma TrimSuffix_append: "TrimSuffix (s @ suffix) suffix = s"
  by (simp add: TrimSuffix_def HasSuffix_def)

lemma TrimSuffix_absent: "\<not> HasSuffix s suffix \<Longrightarrow> TrimSuffix s suffix = s"
  by (simp add: TrimSuffix_def)

subsection \<open>What the operations add to the trace\<close>

lemma sends_refl: "sends P tr tr"
  by (simp add: sends_def)

lemma sends_trans: "sends P tr ta \<Longrightarrow> sends P ta tb \<Longrightarrow> sends P tr tb"
  by (auto simp: sends_def)

lemma request_call:
  "\<exists>c. request e p req tr = (Do e (tr @ [c]), tr @ [c]) \<and> authenticated p c \<and>
       Method (Req c) = Method req \<and> URL (Req c) = URL req \<and> ReqBody (Req c) = ReqBody req"
  by (simp add: request_def authenticated_def Let_def)

lemma request_sends:
  assumes "\<And>c. authenticated p c \<Longrightarrow> Method (Req c) = Method req \<Longrightarrow>
                URL (Req c) = URL req \<Longrightarrow> P c"
  shows "sends P tr (snd (request e p req tr))"
proof -
  obtain c where c: "request e p req tr = (Do e (tr @ [c]), tr @ [c])" "authenticated p c"
      "Method (Req c) = Method req" "URL (Req c) = URL req"
    using request_call [of e p req tr] by blast
  then have "P c" using assms by blast
  with c(1) show ?thesis by (simp add: sends_def)
qed

lemma GetRecords_sends:
  assumes "\<And>c. authenticated p c \<Longrightarrow> Method (Req c) = ''GET'' \<Longrightarrow>
                URL (Req c) = records_url (TrimSuffix zone ''.'') \<Longrightarrow> P c"
  shows "sends P tr (snd (GetRecords e p zone tr))"
proof (cases "NewRequestError e ''GET'' (records_url (TrimSuffix zone ''.''))")
  case (Some err)
  then show ?thesis
    by (simp add: GetRecords_def NewRequestWithContext_def records_url_def sends_refl)
next
  case None
  let ?req = "\<lparr>Method = ''GET'', URL = records_url (TrimSuffix zone ''.''),
                Header = Map.empty, ReqBody = None\<rparr>"
  have "sends P tr (snd (request e p ?req tr))"
    by (rule request_sends) (simp add: assms)
  with None show ?thesis
    by (auto simp: GetRecords_def NewRequestWithContext_def records_url_def
        split: sum.splits prod.splits)
qed

lemma createRecord_sends:
  assumes "\<And>c. authenticated p c \<Longrightarrow> Method (Req c) = ''PATCH'' \<Longrightarrow>
                URL (Req c) = records_url (TrimSuffix zone ''.'') \<Longrightarrow> P c"
  shows "sends P tr (snd (createRecord e p zone r tr))"
proof (cases "Marshal e [\<lparr>Name = recordName (TrimSuffix zone ''.'') (Name r), TTL = TTL r,
                          Type = Type r, Data = Data r\<rparr>]")
  case (Inl err)
  then show ?thesis
    by (simp add: createRecord_def Let_def RR_def sends_refl)
next
  case (Inr js)
  show ?thesis
  proof (cases "NewRequestError e ''PATCH'' (records_url (TrimSuffix zone ''.''))")
    case (Some err)
    with Inr show ?thesis
      by (simp add: createRecord_def NewRequestWithContext_def records_url_def Let_def RR_def
          sends_refl)
  next
    case None
    let ?req = "\<lparr>Method = ''PATCH'', URL = records_url (TrimSuffix zone ''.''),
                  Header = Map.empty, ReqBody = Some js\<rparr>"
    have "sends P tr (snd (request e p ?req tr))"
      by (rule request_sends) (simp add: assms)
    with Inr None show ?thesis
      by (auto simp: createRecord_def NewRequestWithContext_def records_url_def Let_def RR_def
          split: sum.splits prod.splits)
  qed
qed

lemma deleteRecord_sends:
  assumes "\<And>c. authenticated p c \<Longrightarrow> Method (Req c) = ''DELETE'' \<Longrightarrow>
                URL (Req c) = records_url (TrimSuffix zone ''.'') @ ''/'' @ Type r @ ''/''
                                @ recordName (TrimSuffix zone ''.'') (Name r) \<Longrightarrow> P c"
  shows "sends P tr (snd (deleteRecord e p zone r tr))"
proof (cases "NewRequestError e ''DELETE'' (records_url (TrimSuffix zone ''.'') @ ''/''
                @ Type r @ ''/'' @ recordName (TrimSuffix zone ''.'') (Name r))")
  case (Some err)
  then show ?thesis
    by (simp add: deleteRecord_def NewRequestWithContext_def records_url_def Let_def RR_def
        sends_refl)
next
  case None
  let ?req = "\<lparr>Method = ''DELETE'',
                URL = records_url (TrimSuffix zone ''.'') @ ''/'' @ Type r @ ''/''
                        @ recordName (TrimSuffix zone ''.'') (Name r),
                Header = Map.empty, ReqBody = None\<rparr>"
  have "sends P tr (snd (request e p ?req tr))"
    by (rule request_sends) (simp add: assms)
  with None show ?thesis
    by (auto simp: deleteRecord_def NewRequestWithContext_def records_url_def Let_def RR_def
        split: sum.splits prod.splits)
qed

lemma AppendRecords_loop_sends:
  assumes "\<And>r t. sends P t (snd (createRecord e p zone r t))"
  shows "sends P tr (snd (AppendRecords_loop e p zone rs acc tr))"
proof (induction rs arbitrary: acc tr)
  case Nil
  show ?case by (simp add: sends_refl)
next
  case (Cons r rs)
  obtain res t1 where c: "createRecord e p zone r tr = (res, t1)"
    by (cases "createRecord e p zone r tr")
  have s1: "sends P tr t1"
    using assms [of tr r] c by simp
  show ?case
  proof (cases res)
    case None
    with c s1 Cons.IH [of t1 "acc @ [r]"] show ?thesis
      by (auto intro: sends_trans)
  next
    case (Some err)
    with c s1 show ?thesis by simp
  qed
qed

lemma DeleteRecords_loop_sends:
  assumes "\<And>r t. sends P t (snd (deleteRecord e p zone r t))"
  shows "sends P tr (snd (DeleteRecords_loop e p zone rs acc tr))"
proof (induction rs arbitrary: acc tr)
  case Nil
  show ?case by (simp add: sends_refl)
next
  case (Cons r rs)
  obtain res t1 where c: "deleteRecord e p zone r tr = (res, t1)"
    by (cases "deleteRecord e p zone r tr")
  have s1: "sends P tr t1"
    using assms [of tr r] c by simp
  show ?case
  proof (cases res)
    case None
    with c s1 Cons.IH [of t1 "acc @ [r]"] show ?thesis
      by (auto intro: sends_trans)
  next
    case (Some err)
    with c s1 show ?thesis by simp
  qed
qed

lemma SetRecords_inner_sends:
  assumes "\<And>r t. sends P t (snd (deleteRecord e p zone r t))"
  shows "sends P tr (snd (SetRecords_inner e p zone n xs tr))"
proof (induction xs arbitrary: tr)
  case Nil
  show ?case by (simp add: sends_refl)
next
  case (Cons x xs)
  obtain res t1 where c: "deleteRecord e p zone x tr = (res, t1)"
    by (cases "deleteRecord e p zone x tr")
  have s1: "sends P tr t1"
    using assms [of tr x] c by simp
  show ?case
  proof (cases "Type (RR x) = Type (RR n) \<and> Name (RR x) = Name (RR n)")
    case False
    with Cons.IH [of tr] show ?thesis by (auto simp: Let_def)
  next
    case True
    show ?thesis
    proof (cases res)
      case None
      with True c s1 Cons.IH [of t1] show ?thesis
        by (auto simp: Let_def intro: sends_trans)
    next
      case (Some err)
      with True c s1 show ?thesis by (simp add: Let_def)
    qed
  qed
qed

lemma SetRecords_outer_sends:
  assumes "\<And>r t. sends P t (snd (deleteRecord e p zone r t))"
  shows "sends P tr (snd (SetRecords_outer e p zone ns xs tr))"
proof (induction ns arbitrary: tr)
  case Nil
  show ?case by (simp add: sends_refl)
next
  case (Cons n ns)
  obtain res t1 where c: "SetRecords_inner e p zone n xs tr = (res, t1)"
    by (cases "SetRecords_inner e p zone n xs tr")
  have s1: "sends P tr t1"
    using SetRecords_inner_sends [of P e p zone tr n xs, OF assms] c by simp
  show ?case
  proof (cases res)
    case None
    with c s1 Cons.IH [of t1] show ?thesis
      by (auto intro: sends_trans)
  next
    case (Some err)
    with c s1 show ?thesis by simp
  qed
qed

lemma SetRecords_sends:
  assumes get: "\<And>t. sends P t (snd (GetRecords e p zone t))"
    and del: "\<And>r t. sends P t (snd (deleteRecord e p zone r t))"
    and cre: "\<And>r t. sends P t (snd (createRecord e p zone r t))"
  shows "sends P tr (snd (SetRecords e p zone rs tr))"
proof -
  obtain ex ge t1 where g: "GetRecords e p zone tr = ((ex, ge), t1)"
    by (cases "GetRecords e p zone tr") auto
  have s1: "sends P tr t1"
    using get [of tr] g by simp
  show ?thesis
  proof (cases ge)
    case (Some err)
    with g s1 show ?thesis by (simp add: SetRecords_def)
  next
    case None
    obtain de t2 where d: "SetRecords_outer e p zone rs ex t1 = (de, t2)"
      by (cases "SetRecords_outer e p zone rs ex t1")
    have s2: "sends P t1 t2"
      using SetRecords_outer_sends [of P e p zone t1 rs ex, OF del] d by simp
    show ?thesis
    proof (cases de)
      case (Some err)
      with None g d s1 s2 show ?thesis
        by (auto simp: SetRecords_def intro: sends_trans)
    next
      case None2: None
      have s3: "sends P t2 (snd (AppendRecords e p zone rs t2))"
        unfolding AppendRecords_def by (rule AppendRecords_loop_sends) (rule cre)
      from None None2 g d have "SetRecords e p zone rs tr = AppendRecords e p zone rs t2"
        by (simp add: SetRecords_def)
      with s1 s2 s3 show ?thesis
        by (auto intro: sends_trans)
    qed
  qed
qed




subsection \<open>Evaluation on concrete inputs\<close>

lemmas run_defs =
  GetRecords_def createRecord_def deleteRecord_def AppendRecords_def DeleteRecords_def
  SetRecords_def RR_def test_env_def test_decode_def always_def nth_call_def by_method_def
  records_body_def test_provider_def NewRequestWithContext_def request_def Let_def
  TrimSuffix_def HasSuffix_def recordName_def calls_def credentials_def txt_record_def
  Second_def test_marshal_def

lemma Itoa_201: "Itoa 201 = ''201''" by code_simp

lemma Itoa_404: "Itoa 404 = ''404''" by code_simp

lemma Itoa_500: "Itoa 500 = ''500''" by code_simp

subsection \<open>Every call goes through the transport helper\<close>



subsection \<open>Empty batches\<close>

text \<open>
  C9: on an empty list of records \<^verbatim>\<open>AppendRecords\<close> and \<^verbatim>\<open>DeleteRecords\<close>
  return the empty list and no error, and send no call.
\<close>

theorem empty_batch_sends_nothing:
  "AppendRecords e p zone [] tr = (([], None), tr) \<and>
   DeleteRecords e p zone [] tr = (([], None), tr)"
  by (simp add: AppendRecords_def DeleteRecords_def)

subsection \<open>The delete target\<close>

text \<open>
  C8: \<^verbatim>\<open>deleteRecord\<close> reads the type and the name of its record only: on two records
  of the same type and name, whatever their data and TTL, it sends the same call and
  returns the same result.
\<close>

theorem deleteRecord_type_and_name_only:
  "Type r1 = Type r2 \<and> Name r1 = Name r2 \<longrightarrow>
     deleteRecord e p zone r1 tr = deleteRecord e p zone r2 tr"
  by (simp add: deleteRecord_def RR_def)

theorem deleteRecord_type_and_name_only_witness:
  "Data (txt_record ''_acme-challenge'' ''old'') \<noteq>
     Data \<lparr>Name = ''_acme-challenge'', TTL = 0, Type = ''TXT'', Data = ''new''\<rparr> \<and>
   TTL (txt_record ''_acme-challenge'' ''old'') \<noteq>
     TTL \<lparr>Name = ''_acme-challenge'', TTL = 0, Type = ''TXT'', Data = ''new''\<rparr> \<and>
   deleteRecord (test_env (always 404 ''gone'')) test_provider ''example.com.''
       (txt_record ''_acme-challenge'' ''old'') [] =
   deleteRecord (test_env (always 404 ''gone'')) test_provider ''example.com.''
       \<lparr>Name = ''_acme-challenge'', TTL = 0, Type = ''TXT'', Data = ''new''\<rparr> [] \<and>
   fst (deleteRecord (test_env (always 404 ''gone'')) test_provider ''example.com.''
       (txt_record ''_acme-challenge'' ''old'') []) =
     Some ''failed to delete DNS record: 404 gone'' \<and>
   calls (snd (deleteRecord (test_env (always 404 ''gone'')) test_provider ''example.com.''
       (txt_record ''_acme-challenge'' ''old'') [])) =
     [(''DELETE'',
       ''https://api.godaddy.com/v1/domains/example.com/records/TXT/_acme-challenge'')]"
  using deleteRecord_type_and_name_only [of "txt_record ''_acme-challenge'' ''old''"
      "\<lparr>Name = ''_acme-challenge'', TTL = 0, Type = ''TXT'', Data = ''new''\<rparr>"
      "test_env (always 404 ''gone'')" test_provider "''example.com.''" "[]"]
  by (simp add: run_defs Itoa_404)

subsection \<open>Provisioning\<close>

text \<open>
  C5: \<^verbatim>\<open>Provision\<close> returns an error exactly when the API key or the API secret is
  empty; it sends no call; and with key and secret set, a provider whose timeout is zero
  is provisioned into the same provider as one whose timeout is 30 seconds, so that every
  operation does the same on both.
\<close>

theorem Provision_contract:
  "(snd (fst (Provision p tr)) \<noteq> None) = (APIKey p = [] \<or> APISecret p = []) \<and>
   snd (Provision p tr) = tr \<and>
   (APIKey p \<noteq> [] \<and> APISecret p \<noteq> [] \<longrightarrow>
      Provision (p\<lparr>HTTPTimeout := 0\<rparr>) tr = ((p\<lparr>HTTPTimeout := 30 * Second\<rparr>, None), tr) \<and>
      Provision (p\<lparr>HTTPTimeout := 0\<rparr>) tr = Provision (p\<lparr>HTTPTimeout := 30 * Second\<rparr>) tr \<and>
      GetRecords e (fst (fst (Provision (p\<lparr>HTTPTimeout := 0\<rparr>) tr))) zone t =
        GetRecords e (fst (fst (Provision (p\<lparr>HTTPTimeout := 30 * Second\<rparr>) tr))) zone t \<and>
      AppendRecords e (fst (fst (Provision (p\<lparr>HTTPTimeout := 0\<rparr>) tr))) zone rs t =
        AppendRecords e (fst (fst (Provision (p\<lparr>HTTPTimeout := 30 * Second\<rparr>) tr))) zone rs t \<and>
      DeleteRecords e (fst (fst (Provision (p\<lparr>HTTPTimeout := 0\<rparr>) tr))) zone rs t =
        DeleteRecords e (fst (fst (Provision (p\<lparr>HTTPTimeout := 30 * Second\<rparr>) tr))) zone rs t \<and>
      SetRecords e (fst (fst (Provision (p\<lparr>HTTPTimeout := 0\<rparr>) tr))) zone rs t =
        SetRecords e (fst (fst (Provision (p\<lparr>HTTPTimeout := 30 * Second\<rparr>) tr))) zone rs t)"
  by (simp add: Provision_def Second_def)

theorem Provision_contract_witness:
  "APIKey test_provider \<noteq> [] \<and> APISecret test_provider \<noteq> [] \<and>
   fst (Provision (test_provider\<lparr>HTTPTimeout := 0\<rparr>) []) = (test_provider, None) \<and>
   Provision (test_provider\<lparr>HTTPTimeout := 0\<rparr>) [] =
     Provision (test_provider\<lparr>HTTPTimeout := 30 * Second\<rparr>) [] \<and>
   snd (fst (Provision (test_provider\<lparr>APISecret := []\<rparr>) [])) =
     Some ''GoDaddy API secret cannot be empty'' \<and>
   map Timeout (snd (GetRecords (test_env (always 200 []))
     (fst (fst (Provision (test_provider\<lparr>HTTPTimeout := 0\<rparr>) []))) ''example.com.'' [])) =
     [30000000000]"
  using Provision_contract [of test_provider "[]" "test_env (always 200 [])"
      "''example.com.''" "[]" "[]"]
  by (simp add: test_provider_def Provision_def run_defs)

subsection \<open>The trailing dot of the zone\<close>

lemma same_domain_GetRecords:
  "TrimSuffix z1 ''.'' = TrimSuffix z2 ''.'' \<Longrightarrow> GetRecords e p z1 tr = GetRecords e p z2 tr"
  by (simp add: GetRecords_def)

lemma same_domain_createRecord:
  "TrimSuffix z1 ''.'' = TrimSuffix z2 ''.'' \<Longrightarrow> createRecord e p z1 r tr = createRecord e p z2 r tr"
  by (simp add: createRecord_def)

lemma same_domain_deleteRecord:
  "TrimSuffix z1 ''.'' = TrimSuffix z2 ''.'' \<Longrightarrow> deleteRecord e p z1 r tr = deleteRecord e p z2 r tr"
  by (simp add: deleteRecord_def)

lemma same_domain_AppendRecords_loop:
  "TrimSuffix z1 ''.'' = TrimSuffix z2 ''.'' \<Longrightarrow>
     AppendRecords_loop e p z1 rs acc tr = AppendRecords_loop e p z2 rs acc tr"
  by (induction rs arbitrary: acc tr) (simp_all add: same_domain_createRecord [of z1 z2] split: prod.splits option.splits)

lemma same_domain_DeleteRecords_loop:
  "TrimSuffix z1 ''.'' = TrimSuffix z2 ''.'' \<Longrightarrow>
     DeleteRecords_loop e p z1 rs acc tr = DeleteRecords_loop e p z2 rs acc tr"
  by (induction rs arbitrary: acc tr) (simp_all add: same_domain_deleteRecord [of z1 z2] split: prod.splits option.splits)

lemma same_domain_SetRecords_inner:
  "TrimSuffix z1 ''.'' = TrimSuffix z2 ''.'' \<Longrightarrow>
     SetRecords_inner e p z1 n xs tr = SetRecords_inner e p z2 n xs tr"
  by (induction xs arbitrary: tr) (simp_all add: Let_def same_domain_deleteRecord [of z1 z2] split: prod.splits option.splits)

lemma same_domain_SetRecords_outer:
  "TrimSuffix z1 ''.'' = TrimSuffix z2 ''.'' \<Longrightarrow>
     SetRecords_outer e p z1 ns xs tr = SetRecords_outer e p z2 ns xs tr"
  by (induction ns arbitrary: tr) (simp_all add: same_domain_SetRecords_inner [of z1 z2] split: prod.splits option.splits)

lemma same_domain_SetRecords:
  "TrimSuffix z1 ''.'' = TrimSuffix z2 ''.'' \<Longrightarrow>
     SetRecords e p z1 rs tr = SetRecords e p z2 rs tr"
  by (simp add: SetRecords_def AppendRecords_def same_domain_GetRecords [of z1 z2]
      same_domain_SetRecords_outer [of z1 z2] same_domain_AppendRecords_loop [of z1 z2]
      split: prod.splits option.splits)

text \<open>
  C7: every operation strips one trailing dot from the zone, and one only, before it
  builds a URL: given \<open>zone\<close> followed by a dot, whatever \<open>zone\<close> ends with, its calls
  go to the records of the domain \<open>zone\<close> (the three remote operations send to exactly
  the URL built from \<open>zone\<close>). Hence for a zone written without a trailing dot, every
  operation sends the same calls and returns the same result whether the zone is given as
  it is or followed by a dot.
\<close>

theorem trailing_dot_of_zone_stripped:
  "TrimSuffix (zone @ ''.'') ''.'' = zone \<and>
   TrimSuffix (zone @ ''..'') ''.'' = zone @ ''.'' \<and>
   sends (\<lambda>c. Method (Req c) = ''GET'' \<and> URL (Req c) = records_url zone) tr
     (snd (GetRecords e p (zone @ ''.'') tr)) \<and>
   sends (\<lambda>c. Method (Req c) = ''PATCH'' \<and> URL (Req c) = records_url zone) tr
     (snd (createRecord e p (zone @ ''.'') r tr)) \<and>
   sends (\<lambda>c. Method (Req c) = ''DELETE'' \<and>
               URL (Req c) = records_url zone @ ''/'' @ Type r @ ''/'' @ recordName zone (Name r))
     tr (snd (deleteRecord e p (zone @ ''.'') r tr)) \<and>
   sends (on_domain zone) tr (snd (AppendRecords e p (zone @ ''.'') rs tr)) \<and>
   sends (on_domain zone) tr (snd (DeleteRecords e p (zone @ ''.'') rs tr)) \<and>
   sends (on_domain zone) tr (snd (SetRecords e p (zone @ ''.'') rs tr)) \<and>
   (\<not> HasSuffix zone ''.'' \<longrightarrow>
      GetRecords e p (zone @ ''.'') tr = GetRecords e p zone tr \<and>
      createRecord e p (zone @ ''.'') r tr = createRecord e p zone r tr \<and>
      deleteRecord e p (zone @ ''.'') r tr = deleteRecord e p zone r tr \<and>
      AppendRecords e p (zone @ ''.'') rs tr = AppendRecords e p zone rs tr \<and>
      DeleteRecords e p (zone @ ''.'') rs tr = DeleteRecords e p zone rs tr \<and>
      SetRecords e p (zone @ ''.'') rs tr = SetRecords e p zone rs tr)"
proof -
  have strip: "TrimSuffix (zone @ ''.'') ''.'' = zone"
    by (rule TrimSuffix_append)
  have one: "TrimSuffix (zone @ ''..'') ''.'' = zone @ ''.''"
    using TrimSuffix_append [of "zone @ ''.''" "''.''"] by simp
  have get: "sends (on_domain zone) t (snd (GetRecords e p (zone @ ''.'') t))" for t
    by (rule GetRecords_sends) (simp add: strip on_domain_def)
  have cre: "sends (on_domain zone) t (snd (createRecord e p (zone @ ''.'') x t))" for x t
    by (rule createRecord_sends) (simp add: strip on_domain_def)
  have del: "sends (on_domain zone) t (snd (deleteRecord e p (zone @ ''.'') x t))" for x t
    by (rule deleteRecord_sends) (simp add: strip on_domain_def)
  have g: "sends (\<lambda>c. Method (Req c) = ''GET'' \<and> URL (Req c) = records_url zone) tr
     (snd (GetRecords e p (zone @ ''.'') tr))"
    by (rule GetRecords_sends) (simp add: strip)
  have c: "sends (\<lambda>c. Method (Req c) = ''PATCH'' \<and> URL (Req c) = records_url zone) tr
     (snd (createRecord e p (zone @ ''.'') r tr))"
    by (rule createRecord_sends) (simp add: strip)
  have d: "sends (\<lambda>c. Method (Req c) = ''DELETE'' \<and>
               URL (Req c) = records_url zone @ ''/'' @ Type r @ ''/'' @ recordName zone (Name r))
     tr (snd (deleteRecord e p (zone @ ''.'') r tr))"
    by (rule deleteRecord_sends) (simp add: strip)
  have a: "sends (on_domain zone) tr (snd (AppendRecords e p (zone @ ''.'') rs tr))"
    unfolding AppendRecords_def by (rule AppendRecords_loop_sends) (rule cre)
  have dl: "sends (on_domain zone) tr (snd (DeleteRecords e p (zone @ ''.'') rs tr))"
    unfolding DeleteRecords_def by (rule DeleteRecords_loop_sends) (rule del)
  have s: "sends (on_domain zone) tr (snd (SetRecords e p (zone @ ''.'') rs tr))"
    by (rule SetRecords_sends) (rule get del cre)+
  have same: "\<not> HasSuffix zone ''.'' \<longrightarrow>
      GetRecords e p (zone @ ''.'') tr = GetRecords e p zone tr \<and>
      createRecord e p (zone @ ''.'') r tr = createRecord e p zone r tr \<and>
      deleteRecord e p (zone @ ''.'') r tr = deleteRecord e p zone r tr \<and>
      AppendRecords e p (zone @ ''.'') rs tr = AppendRecords e p zone rs tr \<and>
      DeleteRecords e p (zone @ ''.'') rs tr = DeleteRecords e p zone rs tr \<and>
      SetRecords e p (zone @ ''.'') rs tr = SetRecords e p zone rs tr"
  proof
    assume "\<not> HasSuffix zone ''.''"
    then have eq: "TrimSuffix (zone @ ''.'') ''.'' = TrimSuffix zone ''.''"
      by (simp add: strip TrimSuffix_absent)
    show "GetRecords e p (zone @ ''.'') tr = GetRecords e p zone tr \<and>
      createRecord e p (zone @ ''.'') r tr = createRecord e p zone r tr \<and>
      deleteRecord e p (zone @ ''.'') r tr = deleteRecord e p zone r tr \<and>
      AppendRecords e p (zone @ ''.'') rs tr = AppendRecords e p zone rs tr \<and>
      DeleteRecords e p (zone @ ''.'') rs tr = DeleteRecords e p zone rs tr \<and>
      SetRecords e p (zone @ ''.'') rs tr = SetRecords e p zone rs tr"
      unfolding AppendRecords_def DeleteRecords_def
      by (intro conjI same_domain_GetRecords same_domain_createRecord
          same_domain_deleteRecord same_domain_AppendRecords_loop
          same_domain_DeleteRecords_loop same_domain_SetRecords eq)
  qed
  show ?thesis
    by (intro conjI strip one g c d a dl s same)
qed

theorem trailing_dot_of_zone_stripped_witness:
  "\<not> HasSuffix ''example.com'' ''.'' \<and>
   SetRecords (test_env (always 200 ''[]'')) test_provider (''example.com'' @ ''.'')
     [txt_record ''a'' ''new''] [] =
   SetRecords (test_env (always 200 ''[]'')) test_provider ''example.com''
     [txt_record ''a'' ''new''] [] \<and>
   calls (snd (SetRecords (test_env (always 200 ''[]'')) test_provider (''example.com'' @ ''.'')
     [txt_record ''a'' ''new''] [])) =
     [(''GET'', ''https://api.godaddy.com/v1/domains/example.com/records''),
      (''PATCH'', ''https://api.godaddy.com/v1/domains/example.com/records'')] \<and>
   calls (snd (DeleteRecords (test_env (always 200 ''[]'')) test_provider (''example.com'' @ ''.'')
     [txt_record ''a'' ''new''] [])) =
     [(''DELETE'', ''https://api.godaddy.com/v1/domains/example.com/records/TXT/a'')] \<and>
   calls (snd (GetRecords (test_env (always 200 ''[]'')) test_provider (''example.com.'' @ ''.'')
     [])) =
     [(''GET'', ''https://api.godaddy.com/v1/domains/example.com./records'')] \<and>
   calls (snd (SetRecords (test_env (always 200 ''[]'')) test_provider (''example.com.'' @ ''.'')
     [txt_record ''a'' ''new''] [])) =
     [(''GET'', ''https://api.godaddy.com/v1/domains/example.com./records''),
      (''PATCH'', ''https://api.godaddy.com/v1/domains/example.com./records'')] \<and>
   calls (snd (deleteRecord (test_env (always 200 ''[]'')) test_provider (''example.com.'' @ ''.'')
     (txt_record ''a'' ''new'') [])) =
     [(''DELETE'', ''https://api.godaddy.com/v1/domains/example.com./records/TXT/a'')]"
  using
    trailing_dot_of_zone_stripped [where zone = "''example.com''"
      and e = "test_env (always 200 ''[]'')" and p = test_provider and tr = "[]"
      and r = "txt_record ''a'' ''new''" and rs = "[txt_record ''a'' ''new'']"]
    trailing_dot_of_zone_stripped [where zone = "''example.com.''"
      and e = "test_env (always 200 ''[]'')" and p = test_provider and tr = "[]"
      and r = "txt_record ''a'' ''new''" and rs = "[txt_record ''a'' ''new'']"]
  by (simp add: run_defs)

subsection \<open>Status codes\<close>

text \<open>
  C3: when the server answers a call of \<^verbatim>\<open>GetRecords\<close> or \<^verbatim>\<open>createRecord\<close> with a
  response, status 200 alone passes the status check (the result of \<^verbatim>\<open>GetRecords\<close> is
  then that of decoding the body); for \<^verbatim>\<open>deleteRecord\<close> the statuses 200 and 204
  pass. Every other status, 201 included, gives an error whose message holds the status
  code in decimal and the body of the response as it is.
\<close>

theorem status_code_boundary:
  "(snd (GetRecords e p zone tr) = tr' \<and> tr' \<noteq> tr \<and> Do e tr' = Inr resp \<longrightarrow>
      fst (GetRecords e p zone tr) =
        (if StatusCode resp = 200
         then (case Decode e (Body resp) of
                 Inl err \<Rightarrow> ([], Some err) | Inr rs \<Rightarrow> (rs, None))
         else ([], Some (''GoDaddy API request failed: '' @ Itoa (StatusCode resp)
                          @ '' '' @ Body resp)))) \<and>
   (snd (createRecord e p zone r tr) = tr' \<and> tr' \<noteq> tr \<and> Do e tr' = Inr resp \<longrightarrow>
      fst (createRecord e p zone r tr) =
        (if StatusCode resp = 200 then None
         else Some (''failed to create DNS record: '' @ Itoa (StatusCode resp)
                     @ '' '' @ Body resp))) \<and>
   (snd (deleteRecord e p zone r tr) = tr' \<and> tr' \<noteq> tr \<and> Do e tr' = Inr resp \<longrightarrow>
      fst (deleteRecord e p zone r tr) =
        (if StatusCode resp = 200 \<or> StatusCode resp = 204 then None
         else Some (''failed to delete DNS record: '' @ Itoa (StatusCode resp)
                     @ '' '' @ Body resp)))"
proof (intro conjI impI)
  assume h: "snd (GetRecords e p zone tr) = tr' \<and> tr' \<noteq> tr \<and> Do e tr' = Inr resp"
  have same: "map (\<lambda>gr::RR. \<lparr>Name = Name gr, TTL = TTL gr, Type = Type gr, Data = Data gr\<rparr>) rs = rs"
    for rs by (induction rs) simp_all
  from h show "fst (GetRecords e p zone tr) =
        (if StatusCode resp = 200
         then (case Decode e (Body resp) of
                 Inl err \<Rightarrow> ([], Some err) | Inr rs \<Rightarrow> (rs, None))
         else ([], Some (''GoDaddy API request failed: '' @ Itoa (StatusCode resp)
                          @ '' '' @ Body resp)))"
    by (auto simp: GetRecords_def request_def Let_def RR_def same split: sum.splits)
next
  assume h: "snd (createRecord e p zone r tr) = tr' \<and> tr' \<noteq> tr \<and> Do e tr' = Inr resp"
  then show "fst (createRecord e p zone r tr) =
        (if StatusCode resp = 200 then None
         else Some (''failed to create DNS record: '' @ Itoa (StatusCode resp)
                     @ '' '' @ Body resp))"
    by (auto simp: createRecord_def request_def Let_def split: sum.splits)
next
  assume h: "snd (deleteRecord e p zone r tr) = tr' \<and> tr' \<noteq> tr \<and> Do e tr' = Inr resp"
  then show "fst (deleteRecord e p zone r tr) =
        (if StatusCode resp = 200 \<or> StatusCode resp = 204 then None
         else Some (''failed to delete DNS record: '' @ Itoa (StatusCode resp)
                     @ '' '' @ Body resp))"
    by (auto simp: deleteRecord_def request_def Let_def split: sum.splits)
qed

theorem status_code_boundary_witness:
  "fst (GetRecords (test_env (always 201 ''created'')) test_provider ''example.com.'' []) =
     ([], Some ''GoDaddy API request failed: 201 created'') \<and>
   fst (createRecord (test_env (always 201 ''created'')) test_provider ''example.com.''
          (txt_record ''a'' ''new'') []) =
     Some ''failed to create DNS record: 201 created'' \<and>
   fst (deleteRecord (test_env (always 201 ''created'')) test_provider ''example.com.''
          (txt_record ''a'' ''new'') []) =
     Some ''failed to delete DNS record: 201 created'' \<and>
   fst (deleteRecord (test_env (always 204 [])) test_provider ''example.com.''
          (txt_record ''a'' ''new'') []) = None"
  using
    status_code_boundary [of "test_env (always 201 ''created'')" test_provider
      "''example.com.''" "[]"
      "snd (GetRecords (test_env (always 201 ''created'')) test_provider ''example.com.'' [])"
      "\<lparr>StatusCode = 201, Body = ''created''\<rparr>" "txt_record ''a'' ''new''"]
    status_code_boundary [of "test_env (always 201 ''created'')" test_provider
      "''example.com.''" "[]"
      "snd (createRecord (test_env (always 201 ''created'')) test_provider ''example.com.''
          (txt_record ''a'' ''new'') [])"
      "\<lparr>StatusCode = 201, Body = ''created''\<rparr>" "txt_record ''a'' ''new''"]
    status_code_boundary [of "test_env (always 201 ''created'')" test_provider
      "''example.com.''" "[]"
      "snd (deleteRecord (test_env (always 201 ''created'')) test_provider ''example.com.''
          (txt_record ''a'' ''new'') [])"
      "\<lparr>StatusCode = 201, Body = ''created''\<rparr>" "txt_record ''a'' ''new''"]
    status_code_boundary [of "test_env (always 204 [])" test_provider
      "''example.com.''" "[]"
      "snd (deleteRecord (test_env (always 204 [])) test_provider ''example.com.''
          (txt_record ''a'' ''new'') [])"
      "\<lparr>StatusCode = 204, Body = []\<rparr>" "txt_record ''a'' ''new''"]
  by (simp add: run_defs Itoa_201)

subsection \<open>The batch operations stop at the first failure\<close>

lemma AppendRecords_loop_ok:
  "AppendRecords_loop e p zone rs acc tr = ((out, None), tr') \<Longrightarrow> out = acc @ rs"
proof (induction rs arbitrary: acc tr)
  case Nil
  then show ?case by simp
next
  case (Cons r rs)
  from Cons.prems obtain t1 where
    "AppendRecords_loop e p zone rs (acc @ [r]) t1 = ((out, None), tr')"
    by (auto split: prod.splits option.splits)
  from Cons.IH [OF this] show ?case by simp
qed

lemma AppendRecords_loop_failed:
  "AppendRecords_loop e p zone rs acc tr = ((out, Some err), tr') \<Longrightarrow>
     \<exists>xs y ys tr1 ce. rs = xs @ y # ys \<and> out = acc @ xs \<and>
        AppendRecords_loop e p zone xs acc tr = ((acc @ xs, None), tr1) \<and>
        createRecord e p zone y tr1 = (Some ce, tr') \<and>
        err = ''failed to create DNS record: '' @ ce"
proof (induction rs arbitrary: acc tr)
  case Nil
  then show ?case by simp
next
  case (Cons r rs)
  obtain res t1 where c: "createRecord e p zone r tr = (res, t1)"
    by (cases "createRecord e p zone r tr")
  show ?case
  proof (cases res)
    case (Some ce)
    with c Cons.prems have "out = acc" "tr' = t1" "err = ''failed to create DNS record: '' @ ce"
      by simp_all
    with c Some show ?thesis
      by (intro exI [of _ "[]"] exI [of _ r] exI [of _ rs] exI [of _ tr] exI [of _ ce]) simp
  next
    case None
    with c Cons.prems
    have "AppendRecords_loop e p zone rs (acc @ [r]) t1 = ((out, Some err), tr')"
      by simp
    from Cons.IH [OF this] obtain xs y ys tr1 ce where
      ih: "rs = xs @ y # ys" "out = (acc @ [r]) @ xs"
        "AppendRecords_loop e p zone xs (acc @ [r]) t1 = (((acc @ [r]) @ xs, None), tr1)"
        "createRecord e p zone y tr1 = (Some ce, tr')"
        "err = ''failed to create DNS record: '' @ ce"
      by blast
    with c None show ?thesis
      by (intro exI [of _ "r # xs"] exI [of _ y] exI [of _ ys] exI [of _ tr1] exI [of _ ce])
        simp
  qed
qed

lemma DeleteRecords_loop_ok:
  "DeleteRecords_loop e p zone rs acc tr = ((out, None), tr') \<Longrightarrow> out = acc @ rs"
proof (induction rs arbitrary: acc tr)
  case Nil
  then show ?case by simp
next
  case (Cons r rs)
  from Cons.prems obtain t1 where
    "DeleteRecords_loop e p zone rs (acc @ [r]) t1 = ((out, None), tr')"
    by (auto split: prod.splits option.splits)
  from Cons.IH [OF this] show ?case by simp
qed

lemma DeleteRecords_loop_failed:
  "DeleteRecords_loop e p zone rs acc tr = ((out, Some err), tr') \<Longrightarrow>
     \<exists>xs y ys tr1 ce. rs = xs @ y # ys \<and> out = acc @ xs \<and>
        DeleteRecords_loop e p zone xs acc tr = ((acc @ xs, None), tr1) \<and>
        deleteRecord e p zone y tr1 = (Some ce, tr') \<and>
        err = ''failed to delete DNS record: '' @ ce"
proof (induction rs arbitrary: acc tr)
  case Nil
  then show ?case by simp
next
  case (Cons r rs)
  obtain res t1 where c: "deleteRecord e p zone r tr = (res, t1)"
    by (cases "deleteRecord e p zone r tr")
  show ?case
  proof (cases res)
    case (Some ce)
    with c Cons.prems have "out = acc" "tr' = t1" "err = ''failed to delete DNS record: '' @ ce"
      by simp_all
    with c Some show ?thesis
      by (intro exI [of _ "[]"] exI [of _ r] exI [of _ rs] exI [of _ tr] exI [of _ ce]) simp
  next
    case None
    with c Cons.prems
    have "DeleteRecords_loop e p zone rs (acc @ [r]) t1 = ((out, Some err), tr')"
      by simp
    from Cons.IH [OF this] obtain xs y ys tr1 ce where
      ih: "rs = xs @ y # ys" "out = (acc @ [r]) @ xs"
        "DeleteRecords_loop e p zone xs (acc @ [r]) t1 = (((acc @ [r]) @ xs, None), tr1)"
        "deleteRecord e p zone y tr1 = (Some ce, tr')"
        "err = ''failed to delete DNS record: '' @ ce"
      by blast
    with c None show ?thesis
      by (intro exI [of _ "r # xs"] exI [of _ y] exI [of _ ys] exI [of _ tr1] exI [of _ ce])
        simp
  qed
qed

lemma AppendRecords_loop_acc:
  "AppendRecords_loop e p zone rs acc tr =
     (case AppendRecords_loop e p zone rs [] tr of ((out, res), t) \<Rightarrow> ((acc @ out, res), t))"
proof (induction rs arbitrary: acc tr)
  case Nil
  show ?case by simp
next
  case (Cons r rs)
  obtain res t1 where c: "createRecord e p zone r tr = (res, t1)"
    by (cases "createRecord e p zone r tr")
  show ?case
  proof (cases res)
    case (Some ce)
    with c show ?thesis by simp
  next
    case None
    have a: "AppendRecords_loop e p zone rs (acc @ [r]) t1 =
        (case AppendRecords_loop e p zone rs [] t1 of
           ((out, res), t) \<Rightarrow> (((acc @ [r]) @ out, res), t))"
      by (rule Cons.IH)
    have b: "AppendRecords_loop e p zone rs [r] t1 =
        (case AppendRecords_loop e p zone rs [] t1 of
           ((out, res), t) \<Rightarrow> (([r] @ out, res), t))"
      by (rule Cons.IH)
    from c None show ?thesis
      by (simp add: a b split: prod.splits)
  qed
qed

lemma DeleteRecords_loop_acc:
  "DeleteRecords_loop e p zone rs acc tr =
     (case DeleteRecords_loop e p zone rs [] tr of ((out, res), t) \<Rightarrow> ((acc @ out, res), t))"
proof (induction rs arbitrary: acc tr)
  case Nil
  show ?case by simp
next
  case (Cons r rs)
  obtain res t1 where c: "deleteRecord e p zone r tr = (res, t1)"
    by (cases "deleteRecord e p zone r tr")
  show ?case
  proof (cases res)
    case (Some ce)
    with c show ?thesis by simp
  next
    case None
    have a: "DeleteRecords_loop e p zone rs (acc @ [r]) t1 =
        (case DeleteRecords_loop e p zone rs [] t1 of
           ((out, res), t) \<Rightarrow> (((acc @ [r]) @ out, res), t))"
      by (rule Cons.IH)
    have b: "DeleteRecords_loop e p zone rs [r] t1 =
        (case DeleteRecords_loop e p zone rs [] t1 of
           ((out, res), t) \<Rightarrow> (([r] @ out, res), t))"
      by (rule Cons.IH)
    from c None show ?thesis
      by (simp add: a b split: prod.splits)
  qed
qed

lemma AppendRecords_Cons:
  "AppendRecords e p zone (r # rs) tr =
     (case createRecord e p zone r tr of
        (Some ce, t) \<Rightarrow> (([], Some (''failed to create DNS record: '' @ ce)), t)
      | (None, t) \<Rightarrow>
          (case AppendRecords e p zone rs t of ((out, res), t') \<Rightarrow> ((r # out, res), t')))"
  using AppendRecords_loop_acc [of e p zone rs "[r]"]
  by (simp add: AppendRecords_def split: prod.splits option.splits)

lemma DeleteRecords_Cons:
  "DeleteRecords e p zone (r # rs) tr =
     (case deleteRecord e p zone r tr of
        (Some ce, t) \<Rightarrow> (([], Some (''failed to delete DNS record: '' @ ce)), t)
      | (None, t) \<Rightarrow>
          (case DeleteRecords e p zone rs t of ((out, res), t') \<Rightarrow> ((r # out, res), t')))"
  using DeleteRecords_loop_acc [of e p zone rs "[r]"]
  by (simp add: DeleteRecords_def split: prod.splits option.splits)

text \<open>
  C2: \<^verbatim>\<open>AppendRecords\<close> and \<^verbatim>\<open>DeleteRecords\<close> go through the records in input
  order and call \<^verbatim>\<open>createRecord\<close> (\<^verbatim>\<open>deleteRecord\<close>) on each. When no call fails
  they return the whole input and no error. When a call fails they stop there: the result
  is the prefix of the records before the failing one, which were all processed, and an
  error made of the failure; the calls already sent stay in the trace. With three records
  of which the second cannot be created, \<^verbatim>\<open>AppendRecords\<close> returns the first record
  alone and an error.
\<close>

theorem batch_stops_at_first_failure:
  "AppendRecords e p zone (r # rs) tr =
     (case createRecord e p zone r tr of
        (Some ce, t) \<Rightarrow> (([], Some (''failed to create DNS record: '' @ ce)), t)
      | (None, t) \<Rightarrow>
          (case AppendRecords e p zone rs t of ((out, res), t') \<Rightarrow> ((r # out, res), t'))) \<and>
   DeleteRecords e p zone (r # rs) tr =
     (case deleteRecord e p zone r tr of
        (Some ce, t) \<Rightarrow> (([], Some (''failed to delete DNS record: '' @ ce)), t)
      | (None, t) \<Rightarrow>
          (case DeleteRecords e p zone rs t of ((out, res), t') \<Rightarrow> ((r # out, res), t'))) \<and>
   (AppendRecords e p zone rs tr = ((out, None), tr') \<longrightarrow> out = rs) \<and>
   (AppendRecords e p zone rs tr = ((out, Some err), tr') \<longrightarrow>
      (\<exists>y ys ta ce. rs = out @ y # ys \<and>
         AppendRecords e p zone out tr = ((out, None), ta) \<and>
         createRecord e p zone y ta = (Some ce, tr') \<and>
         err = ''failed to create DNS record: '' @ ce)) \<and>
   (DeleteRecords e p zone rs tr = ((out, None), tr') \<longrightarrow> out = rs) \<and>
   (DeleteRecords e p zone rs tr = ((out, Some err), tr') \<longrightarrow>
      (\<exists>y ys ta ce. rs = out @ y # ys \<and>
         DeleteRecords e p zone out tr = ((out, None), ta) \<and>
         deleteRecord e p zone y ta = (Some ce, tr') \<and>
         err = ''failed to delete DNS record: '' @ ce)) \<and>
   (createRecord e p zone ra tr = (None, ta) \<and> createRecord e p zone rb ta = (Some ce, tb) \<longrightarrow>
      AppendRecords e p zone [ra, rb, rc] tr =
        (([ra], Some (''failed to create DNS record: '' @ ce)), tb))"
proof (intro conjI impI)
  show "AppendRecords e p zone (r # rs) tr =
     (case createRecord e p zone r tr of
        (Some ce, t) \<Rightarrow> (([], Some (''failed to create DNS record: '' @ ce)), t)
      | (None, t) \<Rightarrow>
          (case AppendRecords e p zone rs t of ((out, res), t') \<Rightarrow> ((r # out, res), t')))"
    by (rule AppendRecords_Cons)
next
  show "DeleteRecords e p zone (r # rs) tr =
     (case deleteRecord e p zone r tr of
        (Some ce, t) \<Rightarrow> (([], Some (''failed to delete DNS record: '' @ ce)), t)
      | (None, t) \<Rightarrow>
          (case DeleteRecords e p zone rs t of ((out, res), t') \<Rightarrow> ((r # out, res), t')))"
    by (rule DeleteRecords_Cons)
next
  assume "AppendRecords e p zone rs tr = ((out, None), tr')"
  then show "out = rs"
    using AppendRecords_loop_ok [of e p zone rs "[]" tr out tr'] by (simp add: AppendRecords_def)
next
  assume "AppendRecords e p zone rs tr = ((out, Some err), tr')"
  then show "\<exists>y ys ta ce. rs = out @ y # ys \<and>
         AppendRecords e p zone out tr = ((out, None), ta) \<and>
         createRecord e p zone y ta = (Some ce, tr') \<and>
         err = ''failed to create DNS record: '' @ ce"
    using AppendRecords_loop_failed [of e p zone rs "[]" tr out err tr']
    by (auto simp: AppendRecords_def)
next
  assume "DeleteRecords e p zone rs tr = ((out, None), tr')"
  then show "out = rs"
    using DeleteRecords_loop_ok [of e p zone rs "[]" tr out tr'] by (simp add: DeleteRecords_def)
next
  assume "DeleteRecords e p zone rs tr = ((out, Some err), tr')"
  then show "\<exists>y ys ta ce. rs = out @ y # ys \<and>
         DeleteRecords e p zone out tr = ((out, None), ta) \<and>
         deleteRecord e p zone y ta = (Some ce, tr') \<and>
         err = ''failed to delete DNS record: '' @ ce"
    using DeleteRecords_loop_failed [of e p zone rs "[]" tr out err tr']
    by (auto simp: DeleteRecords_def)
next
  assume "createRecord e p zone ra tr = (None, ta) \<and> createRecord e p zone rb ta = (Some ce, tb)"
  then show "AppendRecords e p zone [ra, rb, rc] tr =
        (([ra], Some (''failed to create DNS record: '' @ ce)), tb)"
    by (simp add: AppendRecords_def)
qed

theorem batch_stops_at_first_failure_witness:
  "fst (AppendRecords (test_env (always 200 [])) test_provider ''example.com.''
          [txt_record ''a'' ''1'', txt_record ''b'' ''2'', txt_record ''c'' ''3''] []) =
     ([txt_record ''a'' ''1'', txt_record ''b'' ''2'', txt_record ''c'' ''3''], None) \<and>
   fst (AppendRecords (test_env (nth_call 2 500 ''boom'')) test_provider ''example.com.''
          [txt_record ''a'' ''1'', txt_record ''b'' ''2'', txt_record ''c'' ''3''] []) =
     ([txt_record ''a'' ''1''],
      Some ''failed to create DNS record: failed to create DNS record: 500 boom'') \<and>
   calls (snd (AppendRecords (test_env (nth_call 2 500 ''boom'')) test_provider
          ''example.com.''
          [txt_record ''a'' ''1'', txt_record ''b'' ''2'', txt_record ''c'' ''3''] [])) =
     [(''PATCH'', ''https://api.godaddy.com/v1/domains/example.com/records''),
      (''PATCH'', ''https://api.godaddy.com/v1/domains/example.com/records'')] \<and>
   fst (DeleteRecords (test_env (always 204 [])) test_provider ''example.com.''
          [txt_record ''a'' ''1'', txt_record ''b'' ''2'', txt_record ''c'' ''3''] []) =
     ([txt_record ''a'' ''1'', txt_record ''b'' ''2'', txt_record ''c'' ''3''], None) \<and>
   fst (DeleteRecords (test_env (nth_call 2 500 ''boom'')) test_provider ''example.com.''
          [txt_record ''a'' ''1'', txt_record ''b'' ''2'', txt_record ''c'' ''3''] []) =
     ([txt_record ''a'' ''1''],
      Some ''failed to delete DNS record: failed to delete DNS record: 500 boom'') \<and>
   calls (snd (DeleteRecords (test_env (nth_call 2 500 ''boom'')) test_provider
          ''example.com.''
          [txt_record ''a'' ''1'', txt_record ''b'' ''2'', txt_record ''c'' ''3''] [])) =
     [(''DELETE'', ''https://api.godaddy.com/v1/domains/example.com/records/TXT/a''),
      (''DELETE'', ''https://api.godaddy.com/v1/domains/example.com/records/TXT/b'')]"
  using
    batch_stops_at_first_failure [where e = "test_env (always 200 [])" and p = test_provider
      and zone = "''example.com.''" and tr = "[]"
      and rs = "[txt_record ''a'' ''1'', txt_record ''b'' ''2'', txt_record ''c'' ''3'']"
      and out = "[txt_record ''a'' ''1'', txt_record ''b'' ''2'', txt_record ''c'' ''3'']"
      and tr' = "snd (AppendRecords (test_env (always 200 [])) test_provider ''example.com.''
          [txt_record ''a'' ''1'', txt_record ''b'' ''2'', txt_record ''c'' ''3''] [])"]
    batch_stops_at_first_failure [where e = "test_env (nth_call 2 500 ''boom'')" and p = test_provider
      and zone = "''example.com.''" and tr = "[]"
      and rs = "[txt_record ''a'' ''1'', txt_record ''b'' ''2'', txt_record ''c'' ''3'']"
      and out = "[txt_record ''a'' ''1'']"
      and tr' = "snd (AppendRecords (test_env (nth_call 2 500 ''boom'')) test_provider ''example.com.''
          [txt_record ''a'' ''1'', txt_record ''b'' ''2'', txt_record ''c'' ''3''] [])"
      and err = "''failed to create DNS record: failed to create DNS record: 500 boom''"
      and ra = "txt_record ''a'' ''1''" and rb = "txt_record ''b'' ''2''"
      and rc = "txt_record ''c'' ''3''"
      and ta = "snd (createRecord (test_env (nth_call 2 500 ''boom'')) test_provider
          ''example.com.'' (txt_record ''a'' ''1'') [])"
      and ce = "''failed to create DNS record: 500 boom''"
      and tb = "snd (AppendRecords (test_env (nth_call 2 500 ''boom'')) test_provider
          ''example.com.'' [txt_record ''a'' ''1'', txt_record ''b'' ''2'', txt_record ''c'' ''3''] [])"]
    batch_stops_at_first_failure [where e = "test_env (always 204 [])" and p = test_provider
      and zone = "''example.com.''" and tr = "[]"
      and rs = "[txt_record ''a'' ''1'', txt_record ''b'' ''2'', txt_record ''c'' ''3'']"
      and out = "[txt_record ''a'' ''1'', txt_record ''b'' ''2'', txt_record ''c'' ''3'']"
      and tr' = "snd (DeleteRecords (test_env (always 204 [])) test_provider ''example.com.''
          [txt_record ''a'' ''1'', txt_record ''b'' ''2'', txt_record ''c'' ''3''] [])"]
    batch_stops_at_first_failure [where e = "test_env (nth_call 2 500 ''boom'')" and p = test_provider
      and zone = "''example.com.''" and tr = "[]"
      and rs = "[txt_record ''a'' ''1'', txt_record ''b'' ''2'', txt_record ''c'' ''3'']"
      and out = "[txt_record ''a'' ''1'']"
      and tr' = "snd (DeleteRecords (test_env (nth_call 2 500 ''boom'')) test_provider ''example.com.''
          [txt_record ''a'' ''1'', txt_record ''b'' ''2'', txt_record ''c'' ''3''] [])"
      and err = "''failed to delete DNS record: failed to delete DNS record: 500 boom''"]
  by (simp add: run_defs Itoa_500)

subsection \<open>Reconciliation\<close>

text \<open>
  The loops of \<^verbatim>\<open>SetRecords\<close> are the algorithm of the specification, on whatever the
  fetch returns.
\<close>

lemma SetRecords_inner_filter:
  "SetRecords_inner e p zone n xs tr =
     spec_issue_deletes e p zone (filter (\<lambda>c. Type c = Type n \<and> Name c = Name n) xs) tr"
  by (induction xs arbitrary: tr) (simp_all add: Let_def RR_def split: prod.splits option.splits)

lemma spec_issue_deletes_append:
  "spec_issue_deletes e p zone (xs @ ys) tr =
     (case spec_issue_deletes e p zone xs tr of
        (Some err, tr') \<Rightarrow> (Some err, tr')
      | (None, tr') \<Rightarrow> spec_issue_deletes e p zone ys tr')"
  by (induction xs arbitrary: tr) (simp_all split: prod.splits option.splits)

lemma SetRecords_outer_targets:
  "SetRecords_outer e p zone ns xs tr =
     spec_issue_deletes e p zone (spec_delete_targets ns xs) tr"
proof (induction ns arbitrary: tr)
  case Nil
  show ?case by (simp add: spec_delete_targets_def)
next
  case (Cons n ns)
  have "spec_delete_targets (n # ns) xs =
          filter (\<lambda>c. Type c = Type n \<and> Name c = Name n) xs @ spec_delete_targets ns xs"
    by (simp add: spec_delete_targets_def)
  then show ?case
    by (simp add: spec_issue_deletes_append SetRecords_inner_filter Cons.IH
        split: prod.splits option.splits)
qed

lemma SetRecords_follows_algorithm:
  "SetRecords e p zone records tr = SetRecords_spec e p zone records tr"
  by (simp add: SetRecords_def SetRecords_spec_def SetRecords_outer_targets
      split: prod.splits option.splits)



lemma GetRecords_error_no_record:
  "GetRecords e p zone tr = ((current, Some err), ta) \<Longrightarrow> current = []"
  by (auto simp: GetRecords_def Let_def split: sum.splits prod.splits if_splits)








subsection \<open>The name sent upstream\<close>

lemma recordName_apex: "recordName domain domain = ''@''"
  by (simp add: recordName_def TrimSuffix_def HasSuffix_def)

lemma recordName_subdomain:
  "sub \<noteq> domain \<Longrightarrow> recordName domain (sub @ ''.'' @ domain) = sub"
  using TrimSuffix_append [of sub "''.'' @ domain"] by (simp add: recordName_def)

lemma recordName_examples:
  "recordName (TrimSuffix ''example.com.'' ''.'') ''www.example.com'' = ''www'' \<and>
   recordName (TrimSuffix ''example.com.'' ''.'') ''example.com'' = ''@''"
  by (simp add: recordName_def TrimSuffix_def HasSuffix_def)

text \<open>
  C4: the name \<^verbatim>\<open>createRecord\<close> sends for the record
  \<^verbatim>\<open>example.com.example.com\<close> of the zone \<^verbatim>\<open>example.com.\<close>, the subdomain
  \<^verbatim>\<open>example.com\<close> of the domain, is \<^verbatim>\<open>@\<close> and not the subdomain: the suffix is
  trimmed before the name is compared with the domain, and the request is the very one
  sent for the record at the apex.
\<close>

theorem createRecord_subdomain_named_as_zone:
  "recordName (TrimSuffix ''example.com.'' ''.'') ''example.com.example.com'' = ''@'' \<and>
   createRecord e p ''example.com.''
     \<lparr>Name = ''example.com.example.com'', TTL = ttl, Type = ty, Data = d\<rparr> tr =
   createRecord e p ''example.com.''
     \<lparr>Name = ''example.com'', TTL = ttl, Type = ty, Data = d\<rparr> tr \<and>
   map (\<lambda>c. ReqBody (Req c))
     (snd (createRecord (test_env (always 200 [])) test_provider ''example.com.''
        \<lparr>Name = ''example.com.example.com'', TTL = 600 * Second, Type = ''A'',
         Data = ''192.0.2.1''\<rparr> [])) = [Some ''A @ 192.0.2.1;'']"
  by (simp add: run_defs)

end
